theory Spec2Isabelle
  imports Main "HOL-Library.Sublist"
begin

section \<open>The chat service (main.py)\<close>

text \<open>
  Python strings are modelled as \<^typ>\<open>string\<close> (character lists): slicing \<open>s[:n]\<close> is
  \<^term>\<open>take n s\<close>, concatenation is \<open>@\<close>, and the truth value of a string is
  \<open>s \<noteq> []\<close>.
\<close>

subsection \<open>Data models\<close>

record Message =
  role :: string
  content :: string

record ChatRequest =
  query :: string
  conversation_history :: "Message list option"

record ChatResponse =
  response :: string
  sources :: "string list"
  timestamp :: string

text \<open>
  A langchain \<open>Document\<close>, as far as the service reads it: \<open>page_content\<close> and the
  metadata dictionary.
\<close>

record Document =
  page_content :: string
  metadata :: "(string \<times> string) list"

text \<open>
  A raised Python exception carries its message \<open>str(e)\<close>. What the caller of the
  endpoint can receive instead of a response is either the rejection of the request
  body by the \<open>ChatRequest\<close> model (status 422) or the \<open>HTTPException\<close> raised by the
  handler, with its status code and detail.
\<close>

datatype exn = Exception string

datatype http_error =
    RequestValidationError
  | HTTPException nat string

text \<open>
  The vector store object (langchain's \<open>Chroma\<close>, a third-party class) as
  \<open>main.py\<close> uses it: \<open>vectorstore._collection.count()\<close> and
  \<open>vectorstore.similarity_search(query, k)\<close>. Either call may raise.
\<close>

record Chroma =
  collection_count :: "exn + nat"
  similarity_search :: "string \<Rightarrow> nat \<Rightarrow> exn + Document list"

text \<open>
  The module-level state a request is served in: \<open>vectorstore\<close> is \<open>None\<close> when the
  database setup at start-up failed, and \<open>utcnow\<close> is the clock reading
  \<open>datetime.utcnow().isoformat()\<close>.
\<close>

record env =
  vectorstore :: "Chroma option"
  utcnow :: string

subsection \<open>Response generation\<close>

definition generate_response :: "string \<Rightarrow> string \<Rightarrow> string" where
  "generate_response q context =
     (if context \<noteq> [] \<and> context \<noteq> ''No documents in database yet. Using general knowledge.''
      then ''Based on CBRE's information: '' @ take 500 context
           @ ''\<newline>\<newline>Is there anything specific you'd like to know more about?''
      else ''I don't have specific information about that in my database yet. Please make sure you've run 'python ingest_data.py' to load the CBRE documents first.'')"

text \<open>The string constants of the service, named for the statements below.\<close>

definition fallback_text :: string where
  "fallback_text = ''I don't have specific information about that in my database yet. Please make sure you've run 'python ingest_data.py' to load the CBRE documents first.''"

definition no_documents_sentinel :: string where
  "no_documents_sentinel = ''No documents in database yet. Using general knowledge.''"

definition response_prefix :: string where
  "response_prefix = ''Based on CBRE's information: ''"

definition response_suffix :: string where
  "response_suffix = ''\<newline>\<newline>Is there anything specific you'd like to know more about?''"

subsection \<open>The chat endpoint\<close>

text \<open>Python's \<open>sep.join(parts)\<close>.\<close>

fun join :: "string \<Rightarrow> string list \<Rightarrow> string" where
  "join sep [] = []"
| "join sep [x] = x"
| "join sep (x # y # ys) = x @ sep @ join sep (y # ys)"

text \<open>
  The body of the handler's outer \<open>try\<close>. The test \<open>vectorstore and count() > 0\<close> is
  evaluated left to right, so \<open>count()\<close> is only called on an existing store, and an
  exception it raises leaves the body. The inner \<open>try\<close> covers the search only: when
  \<open>similarity_search\<close> raises, \<open>sources\<close> keeps its initial value \<open>[]\<close> and the
  context becomes a fixed string.
\<close>

definition chat_body :: "env \<Rightarrow> ChatRequest \<Rightarrow> exn + ChatResponse" where
  "chat_body e request =
     (case
        (case vectorstore e of
           None \<Rightarrow> Inr (''No documents in database yet. Using general knowledge.'', [])
         | Some vs \<Rightarrow>
             (case collection_count vs of
                Inl ex \<Rightarrow> Inl ex
              | Inr n \<Rightarrow>
                  if n > 0 then
                    (case similarity_search vs (query request) 3 of
                       Inr results \<Rightarrow>
                         Inr (join ''\<newline>\<newline>'' (map page_content results),
                              map (\<lambda>doc. take 150 (page_content doc) @ ''...'') results)
                     | Inl ex \<Rightarrow> Inr (''No relevant documents found.'', []))
                  else Inr (''No documents in database yet. Using general knowledge.'', [])))
      of
        Inl ex \<Rightarrow> Inl ex
      | Inr (context, srcs) \<Rightarrow>
          Inr \<lparr>response = generate_response (query request) context,
               sources = srcs,
               timestamp = utcnow e\<rparr>)"

text \<open>The handler: any exception of the body becomes an \<open>HTTPException\<close> with status 500.\<close>

definition chat :: "env \<Rightarrow> ChatRequest \<Rightarrow> http_error + ChatResponse" where
  "chat e request =
     (case chat_body e request of
        Inr r \<Rightarrow> Inr r
      | Inl (Exception msg) \<Rightarrow> Inl (HTTPException 500 (''Error: '' @ msg)))"

subsection \<open>The request model and the route\<close>

text \<open>
  The body of a POST to \<open>/chat\<close> is a JSON value. A number is kept as a decimal
  (mantissa and exponent); the members of an object stand in the order of the text.
\<close>

datatype json =
    JNull
  | JBool bool
  | JNumber int int
  | JString string
  | JArray "json list"
  | JObject "(string \<times> json) list"

text \<open>The value of a member of an object; of a repeated name the last value counts.\<close>

definition json_field :: "(string \<times> json) list \<Rightarrow> string \<Rightarrow> json option" where
  "json_field members name = map_of (rev members) name"

text \<open>A field declared \<open>str\<close> takes a JSON string and nothing else.\<close>

definition str_field :: "(string \<times> json) list \<Rightarrow> string \<Rightarrow> string option" where
  "str_field members name =
     (case json_field members name of
        Some (JString s) \<Rightarrow> Some s
      | _ \<Rightarrow> None)"

text \<open>
  \<open>Message\<close> declares \<open>role: str\<close> and \<open>content: str\<close>, both required; other members of
  the object are ignored.
\<close>

fun Message_of_json :: "json \<Rightarrow> Message option" where
  "Message_of_json (JObject members) =
     (case (str_field members ''role'', str_field members ''content'') of
        (Some r, Some c) \<Rightarrow> Some \<lparr>role = r, content = c\<rparr>
      | _ \<Rightarrow> None)"
| "Message_of_json _ = None"

fun Messages_of_json :: "json list \<Rightarrow> Message list option" where
  "Messages_of_json [] = Some []"
| "Messages_of_json (j # js) =
     (case Message_of_json j of
        None \<Rightarrow> None
      | Some m \<Rightarrow>
          (case Messages_of_json js of
             None \<Rightarrow> None
           | Some ms \<Rightarrow> Some (m # ms)))"

text \<open>
  \<open>conversation_history: Optional[List[Message]] = []\<close>: an absent member gives the
  default \<open>[]\<close>, \<open>null\<close> gives \<open>None\<close>, an array gives its messages if each of them is
  one, and every other value is refused (the outer \<open>None\<close>).
\<close>

fun conversation_history_of_json :: "json option \<Rightarrow> Message list option option" where
  "conversation_history_of_json None = Some (Some [])"
| "conversation_history_of_json (Some JNull) = Some None"
| "conversation_history_of_json (Some (JArray js)) =
     (case Messages_of_json js of
        None \<Rightarrow> None
      | Some ms \<Rightarrow> Some (Some ms))"
| "conversation_history_of_json (Some _) = None"

text \<open>
  \<open>ChatRequest\<close> declares \<open>query: str\<close> with no default, so the member is required and
  must be a string; no condition is placed on its text. The body must be an object;
  members other than the two declared ones are ignored. A body the model refuses is
  answered with the validation error, before the handler is called.
\<close>

fun ChatRequest_of_body :: "json \<Rightarrow> http_error + ChatRequest" where
  "ChatRequest_of_body (JObject members) =
     (case (str_field members ''query'',
            conversation_history_of_json (json_field members ''conversation_history'')) of
        (Some q, Some h) \<Rightarrow> Inr \<lparr>query = q, conversation_history = h\<rparr>
      | _ \<Rightarrow> Inl RequestValidationError)"
| "ChatRequest_of_body _ = Inl RequestValidationError"


section \<open>The vector store\<close>

text \<open>
  Modelled from the spec: the vector store. The source uses the third-party class
  \<open>Chroma\<close>, so \<open>add\<close>, \<open>query\<close> and \<open>count\<close> are not functions of the repository's
  files; the definitions of this section follow the words of the specification (its
  section 4.2) instead. The embedding provider and the similarity measure are
  parameters: \<open>'v\<close> is the type of vectors and \<open>'s\<close> the linearly ordered type of scores.
\<close>

record 'v Chunk =
  chunk_text :: string
  sourceMetadata :: "(string \<times> string) list"
  vector :: "'v option"
  ordinal :: nat

record 'v entry =
  entry_id :: string
  chunk :: "'v Chunk"

text \<open>
  Modelled from the spec: \<open>add\<close> embeds each chunk if it is not already embedded, gives
  it a freshly generated id, appends it to the store and returns the ids. The id
  generator \<open>new_id\<close> reads the store as it is when the entry is written.
\<close>

fun VectorStore_add ::
  "(string \<Rightarrow> 'v) \<Rightarrow> ('v entry list \<Rightarrow> string) \<Rightarrow> 'v Chunk list \<Rightarrow> 'v entry list
     \<Rightarrow> string list \<times> 'v entry list" where
  "VectorStore_add embed_text new_id [] store = ([], store)"
| "VectorStore_add embed_text new_id (c # cs) store =
     (let i = new_id store;
          c' = (case vector c of
                  None \<Rightarrow> c\<lparr>vector := Some (embed_text (chunk_text c))\<rparr>
                | Some v \<Rightarrow> c);
          (ids, store') = VectorStore_add embed_text new_id cs (store @ [\<lparr>entry_id = i, chunk = c'\<rparr>])
      in (i # ids, store'))"

text \<open>Modelled from the spec: \<open>count\<close> is the number of entries of the store.\<close>

definition VectorStore_count :: "'v entry list \<Rightarrow> nat" where
  "VectorStore_count store = length store"

text \<open>
  Modelled from the spec: the score of an entry for a query vector is the similarity of
  the two vectors.
\<close>

definition entry_score :: "(string \<Rightarrow> 'v) \<Rightarrow> ('v \<Rightarrow> 'v \<Rightarrow> 's) \<Rightarrow> 'v \<Rightarrow> 'v entry \<Rightarrow> 's" where
  "entry_score embed_text similarity qv e =
     (case vector (chunk e) of
        Some v \<Rightarrow> similarity qv v
      | None \<Rightarrow> similarity qv (embed_text (chunk_text (chunk e))))"

text \<open>
  Modelled from the spec: entries in descending order of score, an entry standing before
  every later inserted entry of the same score. \<open>place_by_score\<close> puts an entry that
  was inserted earlier than all of \<open>es\<close> into the ordered list \<open>es\<close>.
\<close>

fun place_by_score :: "('e \<Rightarrow> 's::linorder) \<Rightarrow> 'e \<Rightarrow> 'e list \<Rightarrow> 'e list" where
  "place_by_score sc x [] = [x]"
| "place_by_score sc x (y # ys) =
     (if sc y \<le> sc x then x # y # ys else y # place_by_score sc x ys)"

fun rank_by_score :: "('e \<Rightarrow> 's::linorder) \<Rightarrow> 'e list \<Rightarrow> 'e list" where
  "rank_by_score sc [] = []"
| "rank_by_score sc (x # xs) = place_by_score sc x (rank_by_score sc xs)"

text \<open>
  Modelled from the spec: \<open>query(text, k)\<close> embeds the text, scores every stored entry
  against it and returns the \<open>k\<close> highest-scoring chunks with their scores, in descending
  order of score.
\<close>

definition VectorStore_query ::
  "(string \<Rightarrow> 'v) \<Rightarrow> ('v \<Rightarrow> 'v \<Rightarrow> 's::linorder) \<Rightarrow> string \<Rightarrow> nat \<Rightarrow> 'v entry list
     \<Rightarrow> ('v Chunk \<times> 's) list" where
  "VectorStore_query embed_text similarity txt k store =
     map (\<lambda>e. (chunk e, entry_score embed_text similarity (embed_text txt) e))
       (take k (rank_by_score (entry_score embed_text similarity (embed_text txt)) store))"

section \<open>Ingestion (ingest\_data.py)\<close>

definition sample_documents :: "Document list" where
  "sample_documents =
    [
     \<lparr>page_content =
        ''CBRE Office Space Solutions\<newline>        \<newline>CBRE offers comprehensive office space solutions in major metropolitan areas across the United States. Our portfolio includes Class A office buildings featuring modern amenities such as high-speed internet, conference rooms, fitness centers, and 24/7 security. \<newline>\<newline>We provide flexible lease terms ranging from short-term coworking spaces to long-term corporate headquarters leases. Our office properties are strategically located in prime business districts with excellent access to public transportation, dining, and retail amenities.\<newline>\<newline>Popular locations include New York City (Manhattan), Los Angeles (Downtown and West LA), Chicago (Loop and River North), San Francisco (Financial District), and Austin (Downtown).'',
      metadata = [(''title'', ''Office Space Solutions''), (''category'', ''Office'')]\<rparr>,
     \<lparr>page_content =
        ''Industrial and Warehouse Properties\<newline>        \<newline>CBRE's industrial and logistics division specializes in warehouse and distribution center properties ranging from 50,000 to over 500,000 square feet. Our facilities feature:\<newline>\<newline>- Clear heights of 28-36 feet\<newline>- Multiple dock-high loading doors\<newline>- ESFR sprinkler systems\<newline>- LED lighting throughout\<newline>- Proximity to major highways and interstates\<newline>- Rail access available at select locations\<newline>\<newline>These properties are ideal for e-commerce fulfillment, manufacturing, cold storage, and third-party logistics operations. Major industrial markets include the Inland Empire (California), Dallas-Fort Worth, Atlanta, Chicago, and New Jersey.'',
      metadata = [(''title'', ''Industrial Properties''), (''category'', ''Industrial'')]\<rparr>,
     \<lparr>page_content =
        ''2024 Commercial Real Estate Market Trends\<newline>        \<newline>The commercial real estate market in 2024 shows strong performance in several key areas:\<newline>\<newline>Office Market: Hybrid work models continue to drive demand for flexible, amenity-rich office spaces. Flight to quality remains a dominant trend, with tenants seeking Class A properties with modern technology infrastructure.\<newline>\<newline>Industrial Sector: E-commerce growth fuels continued demand for last-mile distribution facilities. Industrial vacancy rates remain at historic lows in top-tier markets.\<newline>\<newline>Investment Activity: Cap rates have stabilized after the 2023 adjustment period. Institutional investors are actively seeking core assets in primary markets.\<newline>\<newline>Technology Impact: PropTech adoption accelerates, with smart building systems, AI-powered property management, and virtual touring becoming standard offerings.'',
      metadata = [(''title'', ''2024 Market Trends''), (''category'', ''Market Analysis'')]\<rparr>,
     \<lparr>page_content =
        ''CBRE Retail Properties\<newline>        \<newline>Our retail division manages shopping centers, lifestyle centers, and mixed-use developments across the country. Properties range from neighborhood strip centers to regional malls and premium outlet centers.\<newline>\<newline>Key Features:\<newline>- High-traffic locations with excellent visibility\<newline>- Co-tenancy with national and regional retailers\<newline>- Ample parking with modern amenities\<newline>- Common area maintenance programs\<newline>- Marketing and promotional support\<newline>\<newline>Retail trends show strong performance for experiential retail, dining, and entertainment concepts. Grocery-anchored centers and medical office adjacencies continue to attract stable traffic.'',
      metadata = [(''title'', ''Retail Properties''), (''category'', ''Retail'')]\<rparr>,
     \<lparr>page_content =
        ''CBRE Leasing Services\<newline>        \<newline>CBRE provides comprehensive tenant representation and landlord representation services:\<newline>\<newline>Tenant Representation:\<newline>- Market analysis and site selection\<newline>- Lease negotiation and documentation\<newline>- Space planning and design coordination\<newline>- Move management services\<newline>\<newline>Landlord Representation:\<newline>- Property marketing and positioning\<newline>- Tenant prospecting and outreach\<newline>- Lease structuring and negotiation\<newline>- Portfolio management\<newline>\<newline>Our team of experienced brokers provides market insights, financial analysis, and strategic advice to optimize real estate decisions. We serve clients across all property types and markets nationwide.'',
      metadata = [(''title'', ''Leasing Services''), (''category'', ''Services'')]\<rparr>,
     \<lparr>page_content =
        ''Commercial Real Estate Investment Analysis\<newline>        \<newline>When evaluating commercial real estate investments, CBRE considers several key metrics:\<newline>\<newline>Cap Rate: Net operating income divided by property value. Current market cap rates range from 4-5% for Class A office to 5-7% for industrial properties.\<newline>\<newline>Cash-on-Cash Return: Annual pre-tax cash flow divided by total cash invested. Target returns typically range from 7-12% depending on asset class and risk profile.\<newline>\<newline>Internal Rate of Return (IRR): Time-weighted return considering all cash flows. Institutional investors typically target 12-18% IRR for value-add strategies.\<newline>\<newline>Occupancy and Tenant Quality: Stable, creditworthy tenants with long-term leases reduce risk and enhance property value.\<newline>\<newline>Location Factors: Proximity to labor pools, transportation infrastructure, and amenities directly impacts property performance and appreciation potential.'',
      metadata = [(''title'', ''Investment Analysis''), (''category'', ''Investment'')]\<rparr>
    ]"

text \<open>
  The script builds the documents from \<open>sample_documents\<close>, splits them into chunks, adds
  the chunks to the store and reports the number of chunks and the store's count. The
  text splitter (langchain's \<open>RecursiveCharacterTextSplitter\<close>, third-party) is the
  parameter \<open>split_documents\<close>; the store is the one modelled above, given as the state
  the script finds and returned as the state it leaves.
\<close>

definition documents :: "Document list" where
  "documents =
     map (\<lambda>doc. \<lparr>page_content = page_content doc, metadata = metadata doc\<rparr>) sample_documents"

record 'v ingest_report =
  chunks_created :: nat
  documents_count :: nat
  store_after :: "'v entry list"

definition ingest_data ::
  "(Document list \<Rightarrow> 'v Chunk list) \<Rightarrow> (string \<Rightarrow> 'v) \<Rightarrow> ('v entry list \<Rightarrow> string)
     \<Rightarrow> 'v entry list \<Rightarrow> 'v ingest_report" where
  "ingest_data split_documents embed_text new_id store =
     (let chunks = split_documents documents;
          (ids, store') = VectorStore_add embed_text new_id chunks store
      in \<lparr>chunks_created = length chunks,
           documents_count = VectorStore_count store',
           store_after = store'\<rparr>)"

section \<open>Example stores and requests\<close>

text \<open>
  Concrete values at which the statements below are evaluated: a store that reports
  \<open>n\<close> entries and answers every search with a given outcome, and a store whose
  collection cannot be read.
\<close>

definition store_answering :: "nat \<Rightarrow> exn + Document list \<Rightarrow> Chroma" where
  "store_answering n outcome =
     \<lparr>collection_count = Inr n, similarity_search = (\<lambda>q k. outcome)\<rparr>"

definition unreadable_store :: Chroma where
  "unreadable_store =
     \<lparr>collection_count = Inl (Exception ''disk I/O error''),
      similarity_search = (\<lambda>q k. Inl (Exception ''disk I/O error''))\<rparr>"

definition office_request :: "Message list option \<Rightarrow> ChatRequest" where
  "office_request h = \<lparr>query = ''office space'', conversation_history = h\<rparr>"

definition body_with_query :: "json \<Rightarrow> json" where
  "body_with_query q = JObject [(''query'', q)]"

definition lease_document :: Document where
  "lease_document =
     \<lparr>page_content = ''CBRE leases Class A office space.'',
      metadata = [(''title'', ''Leasing'')]\<rparr>"

definition plain_chunk :: "string \<Rightarrow> nat \<Rightarrow> nat Chunk" where
  "plain_chunk t n = \<lparr>chunk_text = t, sourceMetadata = [], vector = None, ordinal = n\<rparr>"

text \<open>
  A store of four entries, for an embedding that maps a text to its length and a
  similarity that is the negated distance of two lengths.
\<close>

definition example_entries :: "nat entry list" where
  "example_entries =
     [\<lparr>entry_id = ''a'', chunk = plain_chunk ''warehouse'' 0\<rparr>,
      \<lparr>entry_id = ''b'', chunk = plain_chunk ''office'' 1\<rparr>,
      \<lparr>entry_id = ''c'', chunk = plain_chunk ''retail'' 2\<rparr>,
      \<lparr>entry_id = ''d'', chunk = plain_chunk ''land'' 3\<rparr>]"

definition length_similarity :: "nat \<Rightarrow> nat \<Rightarrow> int" where
  "length_similarity q v = - \<bar>int q - int v\<bar>"

definition chunk_per_document :: "Document list \<Rightarrow> nat Chunk list" where
  "chunk_per_document ds = map (\<lambda>d. plain_chunk (take 500 (page_content d)) 0) ds"

section \<open>Properties of the chat service\<close>

subsection \<open>The branches of the handler\<close>

lemma chat_body_unavailable:
  "vectorstore e = None \<Longrightarrow>
   chat_body e request = Inr \<lparr>response = fallback_text, sources = [], timestamp = utcnow e\<rparr>"
  by (simp add: chat_body_def generate_response_def fallback_text_def)

lemma chat_body_empty:
  "vectorstore e = Some vs \<Longrightarrow> collection_count vs = Inr 0 \<Longrightarrow>
   chat_body e request = Inr \<lparr>response = fallback_text, sources = [], timestamp = utcnow e\<rparr>"
  by (simp add: chat_body_def generate_response_def fallback_text_def)

lemma chat_body_search_raises:
  "vectorstore e = Some vs \<Longrightarrow> collection_count vs = Inr n \<Longrightarrow> 0 < n \<Longrightarrow>
   similarity_search vs (query request) 3 = Inl ex \<Longrightarrow>
   chat_body e request =
     Inr \<lparr>response = response_prefix @ ''No relevant documents found.'' @ response_suffix,
          sources = [], timestamp = utcnow e\<rparr>"
  by (simp add: chat_body_def generate_response_def response_prefix_def response_suffix_def)

lemma chat_body_search_returns:
  "vectorstore e = Some vs \<Longrightarrow> collection_count vs = Inr n \<Longrightarrow> 0 < n \<Longrightarrow>
   similarity_search vs (query request) 3 = Inr results \<Longrightarrow>
   chat_body e request =
     Inr \<lparr>response = generate_response (query request)
                        (join ''\<newline>\<newline>'' (map page_content results)),
          sources = map (\<lambda>doc. take 150 (page_content doc) @ ''...'') results,
          timestamp = utcnow e\<rparr>"
  by (simp add: chat_body_def)


lemma chat_of_body_Inr: "chat_body e request = Inr r \<Longrightarrow> chat e request = Inr r"
  by (simp add: chat_def)


lemma generate_response_cases:
  "generate_response q context =
     (if context = [] \<or> context = no_documents_sentinel then fallback_text
      else response_prefix @ take 500 context @ response_suffix)"
  by (simp add: generate_response_def fallback_text_def no_documents_sentinel_def
      response_prefix_def response_suffix_def)

subsection \<open>Response generation\<close>

text \<open>
  C3: \<open>generate_response\<close> returns the fallback string exactly when its context is
  empty or equal to the sentinel "No documents in database yet. Using general
  knowledge."; for every other context, "No relevant documents found." included, it
  returns the prefix, the first 500 characters of the context and the suffix. The two
  outcomes are different strings, so the decision is the exact comparison.
\<close>

theorem generate_response_fallback_iff:
  "generate_response q context =
     (if context = [] \<or> context = no_documents_sentinel then fallback_text
      else response_prefix @ take 500 context @ response_suffix)
   \<and> (generate_response q context = fallback_text
        \<longleftrightarrow> context = [] \<or> context = no_documents_sentinel)
   \<and> generate_response q ''No relevant documents found.''
        = response_prefix @ ''No relevant documents found.'' @ response_suffix"
  by (simp add: generate_response_def fallback_text_def no_documents_sentinel_def
      response_prefix_def response_suffix_def)

subsection \<open>A failing search\<close>

text \<open>
  C1 (as amended): for a store that reports at least one entry, when the similarity
  search raises, the request still succeeds: the response is the template filled with
  the context "No relevant documents found." and the sources are empty. The response
  is not the fallback string.
\<close>

theorem chat_search_failure_templated:
  assumes "vectorstore e = Some vs" and "collection_count vs = Inr n" and "0 < n"
    and "similarity_search vs (query request) 3 = Inl ex"
  shows "chat e request =
           Inr \<lparr>response = response_prefix @ ''No relevant documents found.'' @ response_suffix,
                sources = [], timestamp = utcnow e\<rparr>"
  using assms by (simp add: chat_of_body_Inr chat_body_search_raises)

theorem chat_search_failure_templated_witness:
  "chat \<lparr>vectorstore = Some (store_answering 6 (Inl (Exception ''index unreadable''))),
         utcnow = ''2024-05-01T09:30:00''\<rparr> (office_request (Some []))
     = Inr \<lparr>response = ''Based on CBRE's information: No relevant documents found.\<newline>\<newline>Is there anything specific you'd like to know more about?'',
            sources = [], timestamp = ''2024-05-01T09:30:00''\<rparr>"
  using chat_search_failure_templated
    [of "\<lparr>vectorstore = Some (store_answering 6 (Inl (Exception ''index unreadable''))),
         utcnow = ''2024-05-01T09:30:00''\<rparr>"
        "store_answering 6 (Inl (Exception ''index unreadable''))" 6
        "office_request (Some [])" "Exception ''index unreadable''"]
  by (simp add: store_answering_def response_prefix_def response_suffix_def)

text \<open>
  C1 as stated fails: with one entry in the store and a search that raises, the response
  is the filled template, which differs from the fallback string.
\<close>

theorem chat_search_failure_not_fallback:
  "chat \<lparr>vectorstore = Some (store_answering 1 (Inl (Exception ''index unreadable''))),
         utcnow = ''2024-05-01T09:30:00''\<rparr> (office_request None)
     = Inr \<lparr>response = ''Based on CBRE's information: No relevant documents found.\<newline>\<newline>Is there anything specific you'd like to know more about?'',
            sources = [], timestamp = ''2024-05-01T09:30:00''\<rparr>
   \<and> ''Based on CBRE's information: No relevant documents found.\<newline>\<newline>Is there anything specific you'd like to know more about?''
       \<noteq> fallback_text"
  by (simp add: chat_def chat_body_def store_answering_def office_request_def
      generate_response_def fallback_text_def)

subsection \<open>Hard failures\<close>


text \<open>
  The request model at some bodies: a query that is not a string, a body that is not an
  object and a history that is not a list of messages are refused; the empty query
  text, a \<open>null\<close> history and additional members are accepted.
\<close>

lemma ChatRequest_of_body_refused:
  "ChatRequest_of_body (body_with_query (JNumber 123 0)) = Inl RequestValidationError"
  "ChatRequest_of_body (body_with_query JNull) = Inl RequestValidationError"
  "ChatRequest_of_body (body_with_query (JBool True)) = Inl RequestValidationError"
  "ChatRequest_of_body (JObject []) = Inl RequestValidationError"
  "ChatRequest_of_body (JArray [JString ''office'']) = Inl RequestValidationError"
  "ChatRequest_of_body (JString ''office'') = Inl RequestValidationError"
  "ChatRequest_of_body
     (JObject [(''query'', JString ''office''),
               (''conversation_history'', JArray [JObject [(''role'', JString ''user'')]])])
     = Inl RequestValidationError"
  "ChatRequest_of_body
     (JObject [(''query'', JString ''office''),
               (''conversation_history'', JArray [JString ''hello''])])
     = Inl RequestValidationError"
  "ChatRequest_of_body
     (JObject [(''query'', JString ''office''),
               (''conversation_history'', JObject [])])
     = Inl RequestValidationError"
  "ChatRequest_of_body
     (JObject [(''query'', JString ''office''),
               (''conversation_history'',
                  JArray [JObject [(''role'', JNumber 1 0), (''content'', JString ''hello'')]])])
     = Inl RequestValidationError"
  by (simp_all add: body_with_query_def json_field_def str_field_def)

lemma ChatRequest_of_body_accepted:
  "ChatRequest_of_body (body_with_query (JString [])) = Inr \<lparr>query = [], conversation_history = Some []\<rparr>"
  "ChatRequest_of_body
     (JObject [(''query'', JString ''office''), (''conversation_history'', JNull), (''other'', JBool False)])
     = Inr \<lparr>query = ''office'', conversation_history = None\<rparr>"
  "ChatRequest_of_body
     (JObject [(''query'', JString ''office''),
               (''conversation_history'',
                  JArray [JObject [(''role'', JString ''user''), (''content'', JString ''hello''),
                                   (''extra'', JNull)]])])
     = Inr \<lparr>query = ''office'',
            conversation_history = Some [\<lparr>role = ''user'', content = ''hello''\<rparr>]\<rparr>"
  "ChatRequest_of_body (JObject [(''query'', JNumber 1 0), (''query'', JString ''office'')])
     = Inr \<lparr>query = ''office'', conversation_history = Some []\<rparr>"
  by (simp_all add: body_with_query_def json_field_def str_field_def)




subsection \<open>An empty or missing store\<close>

text \<open>
  C4 (as amended): when the store object is absent (\<open>vectorstore\<close> is \<open>None\<close>, its setup
  having failed) or reports a count of 0, the request succeeds with the fallback string
  and no sources, whatever a search of that store would return or raise; and a query of
  a store whose count is 0 yields the empty sequence. A store that exists but whose
  count cannot be read is not covered by this statement.
\<close>

theorem chat_empty_or_unavailable:
  assumes "vectorstore e = None
           \<or> (\<exists>vs. vectorstore e = Some vs \<and> collection_count vs = Inr 0)"
  shows "chat e request
           = Inr \<lparr>response = fallback_text, sources = [], timestamp = utcnow e\<rparr>
         \<and> (VectorStore_count store = 0
              \<longrightarrow> VectorStore_query embed_text similarity txt k store = [])"
proof -
  from assms have "chat_body e request
      = Inr \<lparr>response = fallback_text, sources = [], timestamp = utcnow e\<rparr>"
    by (auto simp: chat_body_unavailable chat_body_empty)
  then show ?thesis
    by (simp add: chat_of_body_Inr VectorStore_query_def VectorStore_count_def)
qed

theorem chat_empty_or_unavailable_witness:
  "chat \<lparr>vectorstore = Some (store_answering 0 (Inl (Exception ''never searched''))),
         utcnow = ''2024-05-01T09:30:00''\<rparr> (office_request (Some []))
     = Inr \<lparr>response = ''I don't have specific information about that in my database yet. Please make sure you've run 'python ingest_data.py' to load the CBRE documents first.'',
            sources = [], timestamp = ''2024-05-01T09:30:00''\<rparr>
   \<and> VectorStore_query length length_similarity ''office'' 3 [] = []"
  using chat_empty_or_unavailable
    [of "\<lparr>vectorstore = Some (store_answering 0 (Inl (Exception ''never searched''))),
         utcnow = ''2024-05-01T09:30:00''\<rparr>"
        "office_request (Some [])" "[]" length length_similarity "''office''" 3]
  by (simp add: store_answering_def fallback_text_def VectorStore_count_def)

text \<open>
  C4 as stated fails for a store that is unavailable because it cannot be read: the
  store object exists, reading its count raises, and the request fails with status 500
  instead of being answered with the fallback string.
\<close>

theorem chat_unreadable_store_fails:
  "chat \<lparr>vectorstore = Some unreadable_store, utcnow = ''2024-05-01T09:30:00''\<rparr>
     (office_request (Some []))
     = Inl (HTTPException 500 ''Error: disk I/O error'')"
  by (simp add: chat_def chat_body_def unreadable_store_def)

subsection \<open>A successful search\<close>

text \<open>
  C5 (as amended): for a store that reports at least one entry, the search is made with
  \<open>k = 3\<close>; when it returns, the context is the retrieved texts in returned order
  joined by a blank line, and the response is the prefix, the first 500 characters of
  the context and the suffix, provided the context is neither empty nor equal to the
  sentinel "No documents in database yet. Using general knowledge."; for those two
  contexts the response is the fallback string.
\<close>

theorem chat_response_template:
  assumes "vectorstore e = Some vs" and "collection_count vs = Inr n" and "0 < n"
    and "similarity_search vs (query request) 3 = Inr results"
    and "context = join ''\<newline>\<newline>'' (map page_content results)"
  shows "\<exists>r. chat e request = Inr r
           \<and> response r =
               (if context = [] \<or> context = no_documents_sentinel then fallback_text
                else response_prefix @ take 500 context @ response_suffix)"
  using assms
  by (simp add: chat_of_body_Inr chat_body_search_returns generate_response_cases)

theorem chat_response_template_witness:
  "\<exists>r. chat \<lparr>vectorstore = Some (store_answering 2 (Inr [lease_document, lease_document])),
              utcnow = ''2024-05-01T09:30:00''\<rparr> (office_request (Some [])) = Inr r
       \<and> response r = ''Based on CBRE's information: CBRE leases Class A office space.\<newline>\<newline>CBRE leases Class A office space.\<newline>\<newline>Is there anything specific you'd like to know more about?''"
  using chat_response_template
    [of "\<lparr>vectorstore = Some (store_answering 2 (Inr [lease_document, lease_document])),
         utcnow = ''2024-05-01T09:30:00''\<rparr>"
        "store_answering 2 (Inr [lease_document, lease_document])" 2
        "office_request (Some [])" "[lease_document, lease_document]"
        "''CBRE leases Class A office space.\<newline>\<newline>CBRE leases Class A office space.''"]
  by (simp add: store_answering_def lease_document_def no_documents_sentinel_def
      response_prefix_def response_suffix_def)

text \<open>
  C5 as stated fails: when the one retrieved text is the sentinel sentence itself, the
  search has succeeded and the source is listed, yet the response is the fallback string
  and not the filled template.
\<close>

theorem chat_sentinel_chunk_gets_fallback:
  "chat \<lparr>vectorstore = Some (store_answering 1
            (Inr [\<lparr>page_content = ''No documents in database yet. Using general knowledge.'',
                   metadata = []\<rparr>])),
         utcnow = ''2024-05-01T09:30:00''\<rparr> (office_request None)
     = Inr \<lparr>response = fallback_text,
            sources = [''No documents in database yet. Using general knowledge....''],
            timestamp = ''2024-05-01T09:30:00''\<rparr>
   \<and> fallback_text
       \<noteq> response_prefix
           @ take 500 ''No documents in database yet. Using general knowledge.''
           @ response_suffix"
  by (simp add: chat_def chat_body_def store_answering_def office_request_def
      generate_response_def fallback_text_def response_prefix_def)

text \<open>
  C6: for a store that reports at least one entry, when the search returns, the sources
  are the retrieved texts in retrieval order, each cut to its first 150 characters and
  followed by the marker "...".
\<close>

theorem chat_sources_truncated:
  assumes "vectorstore e = Some vs" and "collection_count vs = Inr n" and "0 < n"
    and "similarity_search vs (query request) 3 = Inr results"
  shows "\<exists>r. chat e request = Inr r
           \<and> sources r = map (\<lambda>doc. take 150 (page_content doc) @ ''...'') results
           \<and> length (sources r) = length results
           \<and> list_all (\<lambda>s. length s \<le> 153) (sources r)"
  using assms
  by (simp add: chat_of_body_Inr chat_body_search_returns list_all_iff)

theorem chat_sources_truncated_witness:
  "\<exists>r. chat \<lparr>vectorstore = Some (store_answering 2
                 (Inr [lease_document, \<lparr>page_content = replicate 200 CHR ''a'', metadata = []\<rparr>])),
              utcnow = ''2024-05-01T09:30:00''\<rparr> (office_request (Some [])) = Inr r
       \<and> sources r = [''CBRE leases Class A office space....'', replicate 150 CHR ''a'' @ ''...'']"
  using chat_sources_truncated
    [of "\<lparr>vectorstore = Some (store_answering 2
                 (Inr [lease_document, \<lparr>page_content = replicate 200 CHR ''a'', metadata = []\<rparr>])),
         utcnow = ''2024-05-01T09:30:00''\<rparr>"
        "store_answering 2 (Inr [lease_document, \<lparr>page_content = replicate 200 CHR ''a'', metadata = []\<rparr>])"
        2 "office_request (Some [])"
        "[lease_document, \<lparr>page_content = replicate 200 CHR ''a'', metadata = []\<rparr>]"]
  by (auto simp: store_answering_def lease_document_def)

subsection \<open>The conversation history\<close>

text \<open>
  C10: two requests with the same query text, served against the same store, get the same
  response text and the same sources (or fail alike), whatever their conversation
  histories are.
\<close>

theorem chat_ignores_history:
  assumes "query r1 = query r2" and "vectorstore e1 = vectorstore e2"
  shows "map_sum id (\<lambda>r. (response r, sources r)) (chat e1 r1)
           = map_sum id (\<lambda>r. (response r, sources r)) (chat e2 r2)"
  using assms
  by (simp add: chat_def chat_body_def split: option.splits sum.splits prod.splits exn.splits)

theorem chat_ignores_history_witness:
  "map_sum id (\<lambda>r. (response r, sources r))
     (chat \<lparr>vectorstore = Some (store_answering 1 (Inr [lease_document])),
            utcnow = ''2024-05-01T09:30:00''\<rparr>
        (office_request (Some [\<lparr>role = ''user'', content = ''hello''\<rparr>])))
   = map_sum id (\<lambda>r. (response r, sources r))
     (chat \<lparr>vectorstore = Some (store_answering 1 (Inr [lease_document])),
            utcnow = ''2024-05-02T10:00:00''\<rparr>
        (office_request None))"
  using chat_ignores_history
    [of "office_request (Some [\<lparr>role = ''user'', content = ''hello''\<rparr>])" "office_request None"
        "\<lparr>vectorstore = Some (store_answering 1 (Inr [lease_document])),
            utcnow = ''2024-05-01T09:30:00''\<rparr>"
        "\<lparr>vectorstore = Some (store_answering 1 (Inr [lease_document])),
            utcnow = ''2024-05-02T10:00:00''\<rparr>"]
  by (simp add: office_request_def)

section \<open>Properties of the vector store and of ingestion\<close>

subsection \<open>Ranking\<close>

lemma set_place_by_score: "set (place_by_score sc x ys) = insert x (set ys)"
  by (induction ys) auto

lemma sorted_place_by_score:
  "sorted_wrt (\<lambda>a b. sc b \<le> sc a) ys \<Longrightarrow>
   sorted_wrt (\<lambda>a b. sc b \<le> sc a) (place_by_score sc x ys)"
proof (induction ys)
  case Nil
  then show ?case by simp
next
  case (Cons y ys)
  show ?case
  proof (cases "sc y \<le> sc x")
    case True
    with Cons.prems show ?thesis by auto
  next
    case False
    with Cons show ?thesis by (auto simp: set_place_by_score)
  qed
qed

lemma sorted_rank_by_score: "sorted_wrt (\<lambda>a b. sc b \<le> sc a) (rank_by_score sc xs)"
  by (induction xs) (auto intro: sorted_place_by_score)

lemma filter_place_by_score:
  "filter (\<lambda>e. sc e = s) (place_by_score sc x ys) =
     (if sc x = s then x # filter (\<lambda>e. sc e = s) ys else filter (\<lambda>e. sc e = s) ys)"
  by (induction ys) auto

lemma filter_rank_by_score:
  "filter (\<lambda>e. sc e = s) (rank_by_score sc xs) = filter (\<lambda>e. sc e = s) xs"
  by (induction xs) (auto simp: filter_place_by_score)

text \<open>
  C7: for every query text and every \<open>k\<close>, the query returns at most \<open>k\<close> results, in
  non-increasing order of score, and for each score \<open>s\<close> the chunks returned with that
  score are, in the order returned, the first of the stored chunks of score \<open>s\<close> in
  insertion order.
\<close>

theorem VectorStore_query_ordered:
  "length (VectorStore_query embed_text similarity txt k store) \<le> k
   \<and> sorted_wrt (\<lambda>a b. snd b \<le> snd a) (VectorStore_query embed_text similarity txt k store)
   \<and> prefix
        (map fst (filter (\<lambda>r. snd r = s) (VectorStore_query embed_text similarity txt k store)))
        (map chunk (filter (\<lambda>e. entry_score embed_text similarity (embed_text txt) e = s) store))"
proof -
  let ?sc = "entry_score embed_text similarity (embed_text txt)"
  let ?top = "take k (rank_by_score ?sc store)"
  let ?res = "VectorStore_query embed_text similarity txt k store"
  have len: "length ?res \<le> k"
    by (simp add: VectorStore_query_def)
  have "sorted_wrt (\<lambda>a b. ?sc b \<le> ?sc a) ?top"
    by (rule sorted_wrt_take) (rule sorted_rank_by_score)
  then have ord: "sorted_wrt (\<lambda>a b. snd b \<le> snd a) ?res"
    by (simp add: VectorStore_query_def sorted_wrt_map)
  have "prefix (filter (\<lambda>e. ?sc e = s) ?top) (filter (\<lambda>e. ?sc e = s) (rank_by_score ?sc store))"
    by (rule filter_mono_prefix) (rule take_is_prefix)
  then have "prefix (filter (\<lambda>e. ?sc e = s) ?top) (filter (\<lambda>e. ?sc e = s) store)"
    by (simp add: filter_rank_by_score)
  then have "prefix (map chunk (filter (\<lambda>e. ?sc e = s) ?top))
               (map chunk (filter (\<lambda>e. ?sc e = s) store))"
    by (rule map_mono_prefix)
  then have ties: "prefix (map fst (filter (\<lambda>r. snd r = s) ?res))
                     (map chunk (filter (\<lambda>e. ?sc e = s) store))"
    by (simp add: VectorStore_query_def filter_map comp_def)
  from len ord ties show ?thesis by blast
qed

theorem VectorStore_query_ordered_witness:
  "VectorStore_query length length_similarity ''leases'' 3 example_entries
     = [(plain_chunk ''office'' 1, 0), (plain_chunk ''retail'' 2, 0), (plain_chunk ''land'' 3, - 2)]
   \<and> length (VectorStore_query length length_similarity ''leases'' 3 example_entries) \<le> 3
   \<and> map fst (filter (\<lambda>r. snd r = 0)
        (VectorStore_query length length_similarity ''leases'' 3 example_entries))
     = [plain_chunk ''office'' 1, plain_chunk ''retail'' 2]"
  using VectorStore_query_ordered [of length length_similarity "''leases''" 3 example_entries 0]
  by (simp add: VectorStore_query_def entry_score_def example_entries_def plain_chunk_def
      length_similarity_def)

subsection \<open>Ingestion\<close>

lemma VectorStore_add_count:
  "length (snd (VectorStore_add embed_text new_id cs store)) = length store + length cs"
  by (induction cs arbitrary: store) (simp_all add: Let_def case_prod_beta)

text \<open>
  C9: ingestion into a fresh store leaves a count equal to the number of chunks the
  splitter produces from the sample documents, so two runs against fresh stores report
  the same count, whatever ids the two runs generate; on a store that already holds
  entries the chunks are counted in addition to them.
\<close>

theorem ingest_data_count_fresh:
  "documents_count (ingest_data split_documents embed_text new_id [])
     = length (split_documents documents)
   \<and> documents_count (ingest_data split_documents embed_text new_id [])
     = documents_count (ingest_data split_documents embed_text new_id' [])
   \<and> documents_count (ingest_data split_documents embed_text new_id store)
     = VectorStore_count store + length (split_documents documents)"
  using VectorStore_add_count [of embed_text new_id "split_documents documents" store]
    VectorStore_add_count [of embed_text new_id "split_documents documents" "[]"]
    VectorStore_add_count [of embed_text new_id' "split_documents documents" "[]"]
  by (simp add: ingest_data_def VectorStore_count_def Let_def case_prod_beta)

theorem ingest_data_count_fresh_witness:
  "documents_count (ingest_data chunk_per_document length (\<lambda>store. ''id'') []) = 6
   \<and> documents_count (ingest_data chunk_per_document length (\<lambda>store. ''id'') [])
     = documents_count (ingest_data chunk_per_document length (\<lambda>store. replicate (length store) CHR ''x'') [])
   \<and> documents_count (ingest_data chunk_per_document length (\<lambda>store. ''id'') example_entries) = 10"
  using ingest_data_count_fresh
    [of chunk_per_document length "\<lambda>store. ''id''" "\<lambda>store. replicate (length store) CHR ''x''"
        example_entries]
  by (simp add: chunk_per_document_def documents_def sample_documents_def
      VectorStore_count_def example_entries_def)

end
